theory Spec2Isabelle
  imports Complex_Main "HOL-Library.AList" "HOL-Library.Sublist"
begin

section \<open>JavaScript values and errors\<close>

text \<open>
  Parsed JSON as the program sees it after \<^verbatim>\<open>JSON.parse\<close> or \<^verbatim>\<open>res.json()\<close>.
  An object is the list of its own properties in insertion order; a property that is
  not listed reads as \<^verbatim>\<open>undefined\<close>, which the model writes \<open>None\<close>.  A number
  matters to the program only through \<^verbatim>\<open>typeof\<close> and truthiness; it is kept as the
  rational it denotes.
\<close>

datatype json =
    JNull
  | JBool bool
  | JNum rat
  | JStr string
  | JArr "json list"
  | JObj "(string \<times> json) list"

type_synonym jobject = "(string \<times> json) list"

text \<open>JavaScript truthiness, used by every \<^verbatim>\<open>if (x)\<close> and \<^verbatim>\<open>x && y\<close> of the source.\<close>

fun truthy :: "json \<Rightarrow> bool" where
  "truthy JNull = False"
| "truthy (JBool b) = b"
| "truthy (JNum n) = (n \<noteq> 0)"
| "truthy (JStr s) = (s \<noteq> [])"
| "truthy (JArr xs) = True"
| "truthy (JObj kvs) = True"


text \<open>
  Everything the program throws or receives as a rejection.  \<open>HTTPError\<close> carries what
  \<^verbatim>\<open>response.body?.json()\<close> gives: \<open>None\<close> when the response has no body, the
  parsed value or the rejection otherwise.  \<open>Thrown\<close> is a thrown value that is not an
  \<^verbatim>\<open>Error\<close> instance.
\<close>

datatype error =
    Error string
  | ErrorWithCause string error
  | TypeError string
  | SyntaxError string
  | AssertionError string
  | OAuthStateError string
  | OAuthClientError string error "json option"
  | ClientError string "error option"
  | HTTPError string "(error + json) option"
  | OtherError string string
  | Thrown json

text \<open>\<^verbatim>\<open>e instanceof Error\<close> and \<^verbatim>\<open>e.message\<close>.\<close>

fun instanceof_Error :: "error \<Rightarrow> bool" where
  "instanceof_Error (Thrown v) = False"
| "instanceof_Error e = True"

fun message :: "error \<Rightarrow> string" where
  "message (Error m) = m"
| "message (ErrorWithCause m c) = m"
| "message (TypeError m) = m"
| "message (SyntaxError m) = m"
| "message (AssertionError m) = m"
| "message (OAuthStateError m) = m"
| "message (OAuthClientError m c r) = m"
| "message (ClientError m c) = m"
| "message (HTTPError m b) = m"
| "message (OtherError n m) = m"
| "message (Thrown v) = []"

text \<open>\<^verbatim>\<open>s.startsWith(p)\<close> and \<^verbatim>\<open>s.includes(p)\<close> on strings.\<close>

definition startsWith :: "string \<Rightarrow> string \<Rightarrow> bool" where
  "startsWith s p = prefix p s"

fun str_includes :: "string \<Rightarrow> string \<Rightarrow> bool" where
  "str_includes [] p = (p = [])"
| "str_includes (c # cs) p = (prefix p (c # cs) \<or> str_includes cs p)"

section \<open>OAuthState: state, nonce and PKCE material\<close>

text \<open>
  \<^verbatim>\<open>client.randomState()\<close>, \<^verbatim>\<open>client.randomNonce()\<close> and
  \<^verbatim>\<open>client.randomPKCECodeVerifier()\<close> are calls into openid-client; the record
  holds the values they return at one construction.
\<close>

record random_source =
  randomState :: string
  randomNonce :: string
  randomPKCECodeVerifier :: string

text \<open>\<^verbatim>\<open>Partial<OAuthStateOptions>\<close>: every field may be missing.\<close>

record OAuthStateOptions =
  opt_state :: "string option"
  opt_nonce :: "string option"
  opt_pkce :: "string option"
  opt_codeVerifier :: "string option"

record OAuthState =
  state :: string
  nonce :: string
  pkce :: "string option"
  codeVerifier :: string

definition CODE_CHALLENGE_METHOD :: string where
  "CODE_CHALLENGE_METHOD = ''S256''"

text \<open>
  The constructor: \<^verbatim>\<open>options?.state ?? client.randomState()\<close> and so on; the argument
  \<open>None\<close> is \<^verbatim>\<open>undefined\<close> or \<^verbatim>\<open>null\<close>.
\<close>

definition optional_chain :: "OAuthStateOptions option \<Rightarrow> (OAuthStateOptions \<Rightarrow> string option) \<Rightarrow> string option" where
  "optional_chain options field = (case options of None \<Rightarrow> None | Some opts \<Rightarrow> field opts)"

definition nullish :: "string option \<Rightarrow> string \<Rightarrow> string" where
  "nullish v d = (case v of None \<Rightarrow> d | Some s \<Rightarrow> s)"

definition OAuthState_new :: "random_source \<Rightarrow> OAuthStateOptions option \<Rightarrow> OAuthState" where
  "OAuthState_new rnd options =
     \<lparr> state = nullish (optional_chain options opt_state) (randomState rnd),
       nonce = nullish (optional_chain options opt_nonce) (randomNonce rnd),
       pkce = optional_chain options opt_pkce,
       codeVerifier = nullish (optional_chain options opt_codeVerifier) (randomPKCECodeVerifier rnd) \<rparr>"

text \<open>
  \<^verbatim>\<open>getCodeChallenge\<close> returns the challenge and the object as the call leaves it
  (\<^verbatim>\<open>_pkce\<close> assigned on the first call).  \<open>calc\<close> is
  \<^verbatim>\<open>client.calculatePKCECodeChallenge\<close>.  \<^verbatim>\<open>if (this._pkce)\<close> is a truthiness
  test: an empty string counts as not computed.
\<close>

definition getCodeChallenge :: "(string \<Rightarrow> string) \<Rightarrow> OAuthState \<Rightarrow> string \<times> OAuthState" where
  "getCodeChallenge calc s =
     (case pkce s of
        Some p \<Rightarrow>
          if p \<noteq> [] then (p, s)
          else (calc (codeVerifier s), s\<lparr>pkce := Some (calc (codeVerifier s))\<rparr>)
      | None \<Rightarrow> (calc (codeVerifier s), s\<lparr>pkce := Some (calc (codeVerifier s))\<rparr>))"

record OAuthStateJSON =
  json_name :: string
  json_state :: string
  json_nonce :: string
  json_pkce :: "string option"
  json_codeVerifier :: string

definition toJSON :: "OAuthState \<Rightarrow> OAuthStateJSON" where
  "toJSON s =
     \<lparr> json_name = ''OAuthState'',
       json_state = state s,
       json_nonce = nonce s,
       json_pkce = pkce s,
       json_codeVerifier = codeVerifier s \<rparr>"

text \<open>
  \<^verbatim>\<open>fromJSON(json)\<close> is \<^verbatim>\<open>new OAuthState(json)\<close>: the serialized record is read at
  the constructor's option type, its \<^verbatim>\<open>name\<close> ignored.
\<close>

definition fromJSON :: "random_source \<Rightarrow> OAuthStateJSON \<Rightarrow> OAuthState" where
  "fromJSON rnd j =
     OAuthState_new rnd
       (Some \<lparr> opt_state = Some (json_state j),
               opt_nonce = Some (json_nonce j),
               opt_pkce = json_pkce j,
               opt_codeVerifier = Some (json_codeVerifier j) \<rparr>)"

section \<open>Protected resource discovery (RFC 9728)\<close>

subsection \<open>Objects, URLs and the platform\<close>

text \<open>
  \<^verbatim>\<open>{ ...target, ...source }\<close>: the properties of \<open>source\<close> are assigned in order; an
  existing key keeps its place and takes the new value, a new key goes to the end.
\<close>

definition object_spread :: "('k \<times> 'v) list \<Rightarrow> ('k \<times> 'v) list \<Rightarrow> ('k \<times> 'v) list" where
  "object_spread target source = fold (\<lambda>(k, v). AList.update k v) source target"

text \<open>
  Property read \<^verbatim>\<open>v.k\<close> for the property names the program uses (none of them a
  built-in property of a string, number, boolean or array): reading from \<^verbatim>\<open>null\<close>
  throws, a primitive or an array has no such property.
\<close>

fun getProp :: "json \<Rightarrow> string \<Rightarrow> error + json option" where
  "getProp JNull k = Inl (TypeError (''Cannot read properties of null (reading '' @ k @ '')''))"
| "getProp (JObj kvs) k = Inr (map_of kvs k)"
| "getProp v k = Inr None"

fun typeof_string :: "json option \<Rightarrow> bool" where
  "typeof_string (Some (JStr s)) = True"
| "typeof_string v = False"

fun isArray :: "json option \<Rightarrow> bool" where
  "isArray (Some (JArr xs)) = True"
| "isArray v = False"

fun array_length :: "json option \<Rightarrow> nat" where
  "array_length (Some (JArr xs)) = length xs"
| "array_length v = 0"

text \<open>
  The parts of a WHATWG \<^verbatim>\<open>URL\<close> object the program reads.  \<open>search_hash\<close> is the
  query and fragment as they appear in \<^verbatim>\<open>href\<close>.  Assigning \<^verbatim>\<open>pathname\<close> on an
  http(s) URL gives a path that starts with a slash; the percent-encoding done by the
  setter is not modelled.
\<close>

record URL =
  origin :: string
  pathname :: string
  search_hash :: string

definition href :: "URL \<Rightarrow> string" where
  "href u = origin u @ pathname u @ search_hash u"

definition set_pathname :: "URL \<Rightarrow> string \<Rightarrow> URL" where
  "set_pathname u p = u\<lparr>pathname := (if prefix ''/'' p then p else ''/'' @ p)\<rparr>"

text \<open>The argument type \<^verbatim>\<open>URL | string\<close>.\<close>

datatype issuer = IssuerString string | IssuerURL URL

datatype jwks_value = JwksSet json | JwksUri string

text \<open>
  \<^verbatim>\<open>ProtectedResourceDiscoveryJwtOptions\<close>: a key set (object or \<^verbatim>\<open>jwks_uri\<close>
  string) or a \<^verbatim>\<open>getKey(issuer)\<close> callback.  \<open>'k\<close> is whatever \<^verbatim>\<open>jwtVerify\<close>
  accepts as its second argument.
\<close>

datatype 'k ProtectedResourceDiscoveryJwtOptions =
    JwksOption jwks_value
  | GetKeyOption "string \<Rightarrow> error + 'k"

record 'k GetProtectedResourceDiscoveryOptions =
  jwt :: "'k ProtectedResourceDiscoveryJwtOptions option"

record response =
  res_ok :: bool
  res_url :: string
  res_content_type :: "string option"
  res_text :: "error + string"
  res_json :: "error + json"

text \<open>
  The capabilities the discovery code calls into: the \<^verbatim>\<open>URL\<close> constructor (which
  does its own conversion of the argument to a string, and throws on an invalid URL),
  \<^verbatim>\<open>ky.get\<close> and jose.  A rejection or a throw is \<open>Inl\<close>.  The token reaches jose as
  received: \<^verbatim>\<open>signed_metadata\<close> is not checked to be a string first.
  \<open>jwtVerify\<close> gives \<^verbatim>\<open>verified.payload\<close>.
\<close>

record 'k platform =
  new_URL :: "json \<Rightarrow> error + URL"
  ky_get :: "string \<Rightarrow> error + response"
  decodeJwt :: "json \<Rightarrow> error + jobject"
  jwtVerify :: "json \<Rightarrow> 'k \<Rightarrow> error + jobject"
  createRemoteJWKSet :: "URL \<Rightarrow> 'k"
  createLocalJWKSet :: "json \<Rightarrow> error + 'k"

definition and_then :: "error + 'a \<Rightarrow> ('a \<Rightarrow> error + 'b) \<Rightarrow> error + 'b" where
  "and_then r f = (case r of Inl e \<Rightarrow> Inl e | Inr v \<Rightarrow> f v)"

definition toURL :: "(json \<Rightarrow> error + URL) \<Rightarrow> issuer \<Rightarrow> error + URL" where
  "toURL URL_constructor i =
     (case i of IssuerURL u \<Rightarrow> Inr u | IssuerString s \<Rightarrow> URL_constructor (JStr s))"

definition PROTECTED_RESOURCE_DISCOVERY_JWT_MEDIA_TYPE :: string where
  "PROTECTED_RESOURCE_DISCOVERY_JWT_MEDIA_TYPE = ''application/oauth-protected-resource-jwt''"

definition PROTECTED_RESOURCE_DISCOVERY_JSON_MEDIA_TYPE :: string where
  "PROTECTED_RESOURCE_DISCOVERY_JSON_MEDIA_TYPE = ''application/oauth-protected-resource+json''"

subsection \<open>requestResourceIdFromIssuer\<close>

text \<open>\<^verbatim>\<open>s.replace(/\/$/, "")\<close> removes one trailing slash.\<close>

definition strip_trailing_slash :: "string \<Rightarrow> string" where
  "strip_trailing_slash s = (if s \<noteq> [] \<and> last s = CHR ''/'' then butlast s else s)"

definition truthy_path :: "string option \<Rightarrow> bool" where
  "truthy_path resourcePath = (case resourcePath of None \<Rightarrow> False | Some p \<Rightarrow> p \<noteq> [])"

definition requestResourceIdFromIssuer :: "'k platform \<Rightarrow> issuer \<Rightarrow> string option \<Rightarrow> error + string" where
  "requestResourceIdFromIssuer pf i resourcePath =
     and_then (toURL (new_URL pf) i) (\<lambda>u.
       let id = strip_trailing_slash (origin u @ pathname u) in
       case resourcePath of
         Some p \<Rightarrow>
           if p \<noteq> [] then Inr (if id \<noteq> [] then id @ ''/'' @ p else origin u @ ''/'' @ p)
           else Inr id
       | None \<Rightarrow> Inr id)"

subsection \<open>payloadToResult and verifySignedMetadata\<close>

text \<open>\<^verbatim>\<open>...(v && { k: v })\<close>: the property is there only when \<open>v\<close> is truthy.\<close>

definition spread_if_truthy :: "string \<Rightarrow> json option \<Rightarrow> jobject" where
  "spread_if_truthy k v = (case v of None \<Rightarrow> [] | Some j \<Rightarrow> if truthy j then [(k, j)] else [])"

text \<open>
  \<^verbatim>\<open>Array.isArray(bearer) && bearer.length > 0 ? bearer : ["header"]\<close> and
  \<^verbatim>\<open>typeof payload.resource_documentation === "string" ? payload.resource_documentation : ""\<close>.
\<close>

definition bearer_or_default :: "jobject \<Rightarrow> json" where
  "bearer_or_default payload =
     (let bearer = map_of payload ''bearer_methods_supported'' in
      case bearer of
        Some b \<Rightarrow> if isArray bearer \<and> array_length bearer > 0 then b else JArr [JStr ''header'']
      | None \<Rightarrow> JArr [JStr ''header''])"

definition documentation_or_default :: "jobject \<Rightarrow> json" where
  "documentation_or_default payload =
     (let documentation = map_of payload ''resource_documentation'' in
      case documentation of
        Some d \<Rightarrow> if typeof_string documentation then d else JStr []
      | None \<Rightarrow> JStr [])"

definition payloadToResult :: "jobject \<Rightarrow> jobject option" where
  "payloadToResult payload =
     (let resource = map_of payload ''resource'';
          authorization_servers = map_of payload ''authorization_servers''
      in
      if \<not> typeof_string resource \<or> \<not> isArray authorization_servers
           \<or> array_length authorization_servers = 0
      then None
      else
        (case (resource, authorization_servers) of
           (Some r, Some first) \<Rightarrow>
             Some
               ([(''resource'', r),
                 (''authorization_servers'', first),
                 (''bearer_methods_supported'', bearer_or_default payload),
                 (''resource_documentation'', documentation_or_default payload)]
                @ spread_if_truthy ''resource_endpoints'' (map_of payload ''resource_endpoints'')
                @ spread_if_truthy ''resource_signing_alg_values_supported''
                    (map_of payload ''resource_signing_alg_values_supported''))
         | _ \<Rightarrow> None))"

text \<open>
  The binding check at the end of \<^verbatim>\<open>verifySignedMetadata\<close>:
  \<^verbatim>\<open>!result || result.resource !== requestResourceId\<close> gives \<^verbatim>\<open>null\<close>.
\<close>

definition bound_result :: "jobject \<Rightarrow> string \<Rightarrow> jobject option" where
  "bound_result payload requestResourceId =
     (case payloadToResult payload of
        None \<Rightarrow> None
      | Some result \<Rightarrow>
          if map_of result ''resource'' \<noteq> Some (JStr requestResourceId) then None
          else Some result)"

definition verifySignedMetadata ::
  "'k platform \<Rightarrow> json \<Rightarrow> 'k ProtectedResourceDiscoveryJwtOptions \<Rightarrow> string \<Rightarrow> error + jobject option" where
  "verifySignedMetadata pf token options requestResourceId =
     (case options of
        GetKeyOption getKey \<Rightarrow>
          and_then (decodeJwt pf token) (\<lambda>unverified.
            case map_of unverified ''iss'' of
              Some (JStr iss) \<Rightarrow>
                and_then (getKey iss) (\<lambda>key.
                and_then (jwtVerify pf token key) (\<lambda>payload.
                  Inr (bound_result payload requestResourceId)))
            | _ \<Rightarrow> Inr None)
      | JwksOption jwks \<Rightarrow>
          and_then
            (case jwks of
               JwksUri s \<Rightarrow> and_then (new_URL pf (JStr s)) (\<lambda>u. Inr (createRemoteJWKSet pf u))
             | JwksSet j \<Rightarrow> createLocalJWKSet pf j)
            (\<lambda>getKey.
              and_then (jwtVerify pf token getKey) (\<lambda>payload.
                Inr (bound_result payload requestResourceId))))"

subsection \<open>OAuthDiscovery.getProtectedResourceDiscovery\<close>

definition verification_required_jwt :: string where
  "verification_required_jwt =
     ''Verification required for '' @ PROTECTED_RESOURCE_DISCOVERY_JWT_MEDIA_TYPE @
     ''. Pass options.jwt with jwks or getKey to verify the signature (RFC 9728 Section 3.3).''"

definition verification_required_signed_metadata :: string where
  "verification_required_signed_metadata =
     ''Verification required for signed_metadata. Pass options.jwt with jwks or getKey to verify the signature (RFC 9728 Section 3.3).''"

text \<open>\<^verbatim>\<open>options?.jwt\<close>.\<close>

definition options_jwt ::
  "'k GetProtectedResourceDiscoveryOptions option \<Rightarrow> 'k ProtectedResourceDiscoveryJwtOptions option" where
  "options_jwt options = (case options of None \<Rightarrow> None | Some os \<Rightarrow> jwt os)"

text \<open>
  The test on a document without \<^verbatim>\<open>signed_metadata\<close>: a string \<^verbatim>\<open>resource\<close> and
  a non-empty array \<^verbatim>\<open>authorization_servers\<close>, or \<^verbatim>\<open>null\<close>; the document is
  returned as it is.
\<close>

definition plain_discovery :: "json \<Rightarrow> jobject option" where
  "plain_discovery json =
     (case json of
        JObj kvs \<Rightarrow>
          if \<not> typeof_string (map_of kvs ''resource'')
               \<or> \<not> isArray (map_of kvs ''authorization_servers'')
               \<or> array_length (map_of kvs ''authorization_servers'') = 0
          then None else Some kvs
      | _ \<Rightarrow> None)"

text \<open>\<^verbatim>\<open>const { signed_metadata: _sm, ...rest } = json\<close>.\<close>

definition rest_without_signed_metadata :: "json \<Rightarrow> jobject" where
  "rest_without_signed_metadata json =
     (case json of JObj kvs \<Rightarrow> AList.delete ''signed_metadata'' kvs | _ \<Rightarrow> [])"

text \<open>The body of the \<^verbatim>\<open>try\<close> block: the response read as JSON.\<close>

definition discovery_from_json ::
  "'k platform \<Rightarrow> response \<Rightarrow> 'k GetProtectedResourceDiscoveryOptions option \<Rightarrow> string
     \<Rightarrow> error + jobject option" where
  "discovery_from_json pf res options requestResourceId =
     and_then (res_json res) (\<lambda>json.
     and_then (getProp json ''signed_metadata'') (\<lambda>signed_metadata.
       case signed_metadata of
         None \<Rightarrow> Inr (plain_discovery json)
       | Some sm \<Rightarrow>
           if truthy sm then
             (case options_jwt options of
                None \<Rightarrow> Inl (Error verification_required_signed_metadata)
              | Some jwt_options \<Rightarrow>
                  and_then (verifySignedMetadata pf sm jwt_options requestResourceId) (\<lambda>merged.
                    case merged of
                      Some m \<Rightarrow> Inr (Some (object_spread (rest_without_signed_metadata json) m))
                    | None \<Rightarrow> Inr None))
           else Inr (plain_discovery json)))"

text \<open>
  What the function does with the response once \<^verbatim>\<open>ky.get\<close> has resolved:
  the \<^verbatim>\<open>res.ok\<close> test, the JWT media type branch, and the \<^verbatim>\<open>try\<close>/\<^verbatim>\<open>catch\<close>
  around the JSON branch.
\<close>

definition discovery_from_response ::
  "'k platform \<Rightarrow> response \<Rightarrow> 'k GetProtectedResourceDiscoveryOptions option \<Rightarrow> string
     \<Rightarrow> error + jobject option" where
  "discovery_from_response pf res options requestResourceId =
     (if \<not> res_ok res then Inr None
      else
        let contentType = (case res_content_type res of None \<Rightarrow> [] | Some c \<Rightarrow> c) in
        if str_includes contentType PROTECTED_RESOURCE_DISCOVERY_JWT_MEDIA_TYPE then
          (case options_jwt options of
             None \<Rightarrow> Inl (Error verification_required_jwt)
           | Some jwt_options \<Rightarrow>
               and_then (res_text res) (\<lambda>token.
                 verifySignedMetadata pf (JStr token) jwt_options requestResourceId))
        else
          (case discovery_from_json pf res options requestResourceId of
             Inr r \<Rightarrow> Inr r
           | Inl e \<Rightarrow>
               if instanceof_Error e \<and> startsWith (message e) ''Verification required''
               then Inl e
               else Inl (Error (''Invalid protected resource discovery: '' @ res_url res))))"

definition well_known_path :: "string option \<Rightarrow> string" where
  "well_known_path resourcePath =
     (case resourcePath of
        Some p \<Rightarrow> if p \<noteq> [] then ''.well-known/oauth-protected-resource/'' @ p
                  else ''.well-known/oauth-protected-resource''
      | None \<Rightarrow> ''.well-known/oauth-protected-resource'')"

text \<open>
  \<^verbatim>\<open>toURL\<close> hands back the caller's own object when the issuer is a \<^verbatim>\<open>URL\<close>, so
  the assignment to \<^verbatim>\<open>base.pathname\<close> changes the issuer that
  \<^verbatim>\<open>requestResourceIdFromIssuer\<close> reads afterwards; a string issuer is parsed afresh.
\<close>

definition issuer_after_assignment :: "issuer \<Rightarrow> URL \<Rightarrow> issuer" where
  "issuer_after_assignment i base =
     (case i of IssuerURL u \<Rightarrow> IssuerURL base | IssuerString s \<Rightarrow> IssuerString s)"

text \<open>
  What the function computes before the request goes out: the request URL
  (\<^verbatim>\<open>base.toString()\<close>) and \<^verbatim>\<open>requestResourceId\<close>.
\<close>

definition discovery_request :: "'k platform \<Rightarrow> issuer \<Rightarrow> string option \<Rightarrow> error + string \<times> string" where
  "discovery_request pf i resourcePath =
     and_then (toURL (new_URL pf) i) (\<lambda>base0.
       let base = set_pathname base0 (well_known_path resourcePath) in
       and_then (requestResourceIdFromIssuer pf (issuer_after_assignment i base) resourcePath)
         (\<lambda>requestResourceId. Inr (href base, requestResourceId)))"

definition getProtectedResourceDiscovery ::
  "'k platform \<Rightarrow> issuer \<Rightarrow> string option \<Rightarrow> 'k GetProtectedResourceDiscoveryOptions option
     \<Rightarrow> error + jobject option" where
  "getProtectedResourceDiscovery pf i resourcePath options =
     and_then (discovery_request pf i resourcePath) (\<lambda>(request_url, requestResourceId).
     and_then (ky_get pf request_url) (\<lambda>res.
       discovery_from_response pf res options requestResourceId))"

subsection \<open>OAuthDiscovery.resolveAuthorizationServerUrl\<close>

datatype OAuthDiscoveryAlgorithm = oidc | oauth2 | protected_resource




section \<open>OAuthConfig: the client configuration\<close>

text \<open>
  What \<open>OAuthClient\<close> reads from an \<^verbatim>\<open>OAuthConfig\<close>: the redirect URI, the scopes,
  the additional parameters (a \<^verbatim>\<open>Record<string, string>\<close> that a subclass fills),
  \<^verbatim>\<open>supportsPKCE\<close>, and the server and client metadata of the wrapped openid-client
  \<^verbatim>\<open>Configuration\<close>.  \<open>config_name\<close> is \<^verbatim>\<open>this.constructor.name\<close>.
\<close>

record OAuthConfig =
  config_name :: string
  redirectUri :: URL
  scopes :: "string list"
  additionalParams :: "(string \<times> string) list"
  supportsPKCE :: bool
  serverMetadata :: json
  clientMetadata :: json

definition OAuthConfig_toJSON :: "OAuthConfig \<Rightarrow> json" where
  "OAuthConfig_toJSON c =
     JObj [(''name'', JStr (config_name c)),
           (''scopes'', JArr (map JStr (scopes c))),
           (''supportsPKCE'', JBool (supportsPKCE c)),
           (''server'', serverMetadata c),
           (''client'', clientMetadata c),
           (''redirectUri'', JStr (href (redirectUri c)))]"

text \<open>
  The object \<^verbatim>\<open>OAuthState.toJSON()\<close> returns, as \<^verbatim>\<open>JSON.stringify\<close> sees it: a
  property whose value is \<^verbatim>\<open>undefined\<close> is left out.
\<close>

definition OAuthStateJSON_value :: "OAuthStateJSON \<Rightarrow> json" where
  "OAuthStateJSON_value j =
     JObj ([(''name'', JStr (json_name j)),
            (''state'', JStr (json_state j)),
            (''nonce'', JStr (json_nonce j))]
           @ (case json_pkce j of None \<Rightarrow> [] | Some p \<Rightarrow> [(''pkce'', JStr p)])
           @ [(''codeVerifier'', JStr (json_codeVerifier j))])"

section \<open>Storage providers and promises\<close>

text \<open>
  \<^verbatim>\<open>MaybePromise<T>\<close>: a provider method returns a value, or a promise together
  with what it settles to.  A method that throws before it returns is \<open>Inl\<close>.
  \<open>await\<close> is what \<^verbatim>\<open>await\<close> makes of such a call inside an async function.
\<close>

datatype 'a MaybePromise = Value 'a | Promise "error + 'a"

record StorageProvider =
  save :: "string \<Rightarrow> string \<Rightarrow> error + unit MaybePromise"
  get :: "string \<Rightarrow> error + string option MaybePromise"

definition await :: "error + 'a MaybePromise \<Rightarrow> error + 'a" where
  "await call =
     (case call of
        Inl e \<Rightarrow> Inl e
      | Inr (Value v) \<Rightarrow> Inr v
      | Inr (Promise settled) \<Rightarrow> settled)"

section \<open>OAuthClient: the authorization-code flow\<close>

record OAuthClient =
  userConfig :: OAuthConfig
  flow_state :: OAuthState
  storage :: "StorageProvider option"

text \<open>
  What the flow calls into: \<^verbatim>\<open>process.env.NODE_ENV === "production"\<close>, url-sheriff,
  openid-client and \<^verbatim>\<open>JSON\<close>.  Tokens are the JSON value the grant resolves to.
\<close>

record runtime =
  production :: bool
  isSafeURL :: "URL \<Rightarrow> error + bool"
  URL_constructor :: "json \<Rightarrow> error + URL"
  calculatePKCECodeChallenge :: "string \<Rightarrow> string"
  buildAuthorizationUrl :: "OAuthConfig \<Rightarrow> (string \<times> string) list \<Rightarrow> error + string"
  authorizationCodeGrant :: "OAuthConfig \<Rightarrow> URL \<Rightarrow> string \<Rightarrow> string \<Rightarrow> string \<Rightarrow> error + json"
  JSON_stringify :: "json \<Rightarrow> string"
  JSON_parse :: "string \<Rightarrow> error + json"

definition STATE_KEY :: string where
  "STATE_KEY = ''core_oauth_state''"

text \<open>\<^verbatim>\<open>xs.join(sep)\<close>.\<close>

fun join :: "string list \<Rightarrow> string \<Rightarrow> string" where
  "join [] sep = []"
| "join [x] sep = x"
| "join (x # y # ys) sep = x @ sep @ join (y # ys) sep"

text \<open>
  The \<^verbatim>\<open>URLSearchParams\<close> of \<^verbatim>\<open>createAuthorizationUrl\<close>: the object literal with
  the additional parameters spread last, then \<^verbatim>\<open>params.set("nonce", ...)\<close> when the
  server does not support PKCE.
\<close>

definition authorization_params ::
  "OAuthConfig \<Rightarrow> OAuthState \<Rightarrow> string \<Rightarrow> string \<Rightarrow> (string \<times> string) list" where
  "authorization_params c s code_challenge scopeSeparator =
     (let params =
            object_spread
              [(''redirect_uri'', href (redirectUri c)),
               (''scope'', join (scopes c) scopeSeparator),
               (''code_challenge'', code_challenge),
               (''state'', state s),
               (''code_challenge_method'', CODE_CHALLENGE_METHOD)]
              (additionalParams c)
      in if \<not> supportsPKCE c then AList.update ''nonce'' (nonce s) params else params)"

text \<open>
  \<^verbatim>\<open>saveState\<close> is an async function that calls \<^verbatim>\<open>this.storage.save(...)\<close> and
  neither awaits nor returns what the call gives.  The result is how the function's own
  promise settles, and the promises it left behind with what they settle to later.
\<close>

definition saveState :: "runtime \<Rightarrow> OAuthClient \<Rightarrow> (error + unit) \<times> (error + unit) list" where
  "saveState rt c =
     (case storage c of
        None \<Rightarrow> (Inr (), [])
      | Some provider \<Rightarrow>
          (case save provider (STATE_KEY @ '':'' @ state (flow_state c))
                  (JSON_stringify rt
                     (JObj [(''state'', OAuthStateJSON_value (toJSON (flow_state c))),
                            (''config'', OAuthConfig_toJSON (userConfig c))])) of
             Inl e \<Rightarrow> (Inl e, [])
           | Inr (Value u) \<Rightarrow> (Inr (), [])
           | Inr (Promise settled) \<Rightarrow> (Inr (), [settled])))"

text \<open>
  \<^verbatim>\<open>createAuthorizationUrl\<close>: what the returned promise settles to, the client as the
  call leaves it (the challenge memoized), and the promises left behind.
\<close>

definition createAuthorizationUrl ::
  "runtime \<Rightarrow> OAuthClient \<Rightarrow> string \<Rightarrow> (error + string) \<times> OAuthClient \<times> (error + unit) list" where
  "createAuthorizationUrl rt c scopeSeparator =
     (case (if production rt then isSafeURL rt (redirectUri (userConfig c)) else Inr True) of
        Inl e \<Rightarrow> (Inl e, c, [])
      | Inr safe \<Rightarrow>
          (let (code_challenge, s) = getCodeChallenge (calculatePKCECodeChallenge rt) (flow_state c);
               c1 = c\<lparr>flow_state := s\<rparr>;
               params = authorization_params (userConfig c1) s code_challenge scopeSeparator
           in case saveState rt c1 of
                (Inl e, floating) \<Rightarrow> (Inl e, c1, floating)
              | (Inr u, floating) \<Rightarrow>
                  (buildAuthorizationUrl rt (userConfig c1) params, c1, floating)))"

text \<open>
  \<^verbatim>\<open>getTokensFromCodeGrant\<close>.  The \<^verbatim>\<open>catch\<close> block rethrows only inside
  \<^verbatim>\<open>if (e instanceof client.ClientError)\<close>; after the block the function ends, so it
  resolves to \<^verbatim>\<open>undefined\<close> (\<open>Inr None\<close>).  Reading the error body may itself reject.
\<close>

definition getTokensFromCodeGrant :: "runtime \<Rightarrow> OAuthClient \<Rightarrow> issuer \<Rightarrow> error + json option" where
  "getTokensFromCodeGrant rt c callback =
     (case and_then (toURL (URL_constructor rt) callback) (\<lambda>u.
             authorizationCodeGrant rt (userConfig c) u
               (state (flow_state c)) (codeVerifier (flow_state c)) (nonce (flow_state c))) of
        Inr tokens \<Rightarrow> Inr (Some tokens)
      | Inl e \<Rightarrow>
          (case e of
             ClientError m cause \<Rightarrow>
               (case cause of
                  Some (HTTPError hm body) \<Rightarrow>
                    (case body of
                       None \<Rightarrow> Inl (OAuthClientError ''Failed to get tokens from code grant'' e None)
                     | Some (Inl rejected) \<Rightarrow> Inl rejected
                     | Some (Inr reason) \<Rightarrow>
                         Inl (OAuthClientError ''Failed to get tokens from code grant'' e (Some reason)))
                | _ \<Rightarrow> Inl (OAuthClientError ''Failed to get tokens from code grant'' e None))
           | _ \<Rightarrow> Inr None))"

subsection \<open>fromStorage\<close>

text \<open>
  \<^verbatim>\<open>"k" in v\<close> for the keys \<^verbatim>\<open>state\<close> and \<^verbatim>\<open>config\<close>: a primitive on the right
  throws, an array has no such key.
\<close>

fun has_key :: "string \<Rightarrow> json \<Rightarrow> error + bool" where
  "has_key k (JObj kvs) = Inr (k \<in> set (map fst kvs))"
| "has_key k (JArr xs) = Inr False"
| "has_key k v = Inl (TypeError (''Cannot use in operator to search for '' @ k))"

fun instanceof_SyntaxError :: "error \<Rightarrow> bool" where
  "instanceof_SyntaxError (SyntaxError m) = True"
| "instanceof_SyntaxError e = False"

text \<open>
  The \<^verbatim>\<open>try\<close> block.  \<open>ConfigClass\<close> and \<open>StateClass\<close> are the \<^verbatim>\<open>fromJSON\<close> of the
  two factory arguments, applied to \<^verbatim>\<open>json.config\<close> and \<^verbatim>\<open>json.state\<close>
  (\<open>None\<close> when the property is missing).
\<close>

definition fromStorage_try ::
  "runtime \<Rightarrow> StorageProvider \<Rightarrow> (json option \<Rightarrow> error + OAuthConfig)
     \<Rightarrow> (json option \<Rightarrow> error + OAuthState) \<Rightarrow> string \<Rightarrow> error + OAuthClient" where
  "fromStorage_try rt provider ConfigClass StateClass key =
     and_then (await (get provider (STATE_KEY @ '':'' @ key))) (\<lambda>store.
       case store of
         None \<Rightarrow> Inl (OAuthStateError (''State '' @ key @ '' not found''))
       | Some text \<Rightarrow>
           if text = [] then Inl (OAuthStateError (''State '' @ key @ '' not found''))
           else
             and_then (JSON_parse rt text) (\<lambda>json.
               if \<not> truthy json then Inl (OAuthStateError (''State '' @ key @ '' not found''))
               else
                 and_then (has_key ''state'' json) (\<lambda>has_state.
                 and_then (has_key ''config'' json) (\<lambda>has_config.
                   if \<not> has_state \<and> \<not> has_config
                   then Inl (OAuthStateError (''State '' @ key @ '' is invalid''))
                   else
                     and_then (getProp json ''state'') (\<lambda>json_state.
                     and_then (StateClass json_state) (\<lambda>s.
                     and_then (getProp json ''config'') (\<lambda>json_config.
                     and_then (ConfigClass json_config) (\<lambda>config.
                       Inr \<lparr>userConfig = config, flow_state = s, storage = Some provider\<rparr>))))))))"

definition fromStorage ::
  "runtime \<Rightarrow> StorageProvider \<Rightarrow> (json option \<Rightarrow> error + OAuthConfig)
     \<Rightarrow> (json option \<Rightarrow> error + OAuthState) \<Rightarrow> string \<Rightarrow> error + OAuthClient" where
  "fromStorage rt provider ConfigClass StateClass key =
     (case fromStorage_try rt provider ConfigClass StateClass key of
        Inr c \<Rightarrow> Inr c
      | Inl e \<Rightarrow>
          if instanceof_SyntaxError e then Inl (ErrorWithCause ''Invalid state entry'' e)
          else Inl e)"

text \<open>
  The default \<open>StateClass\<close>, \<^verbatim>\<open>OAuthState.fromJSON\<close>, on what \<^verbatim>\<open>json.state\<close> holds.
  The constructor reads four properties with \<^verbatim>\<open>options?.k\<close>: \<^verbatim>\<open>undefined\<close> and
  \<^verbatim>\<open>null\<close> have none, a primitive or an array has none of these four.  A property
  that holds \<^verbatim>\<open>null\<close> counts as missing for \<^verbatim>\<open>??\<close> and for the truthiness test on
  \<^verbatim>\<open>_pkce\<close>.  A property of another type than string is outside the constructor's
  declared parameter type; the model does not build an ill-typed object and stops there
  with a \<open>TypeError\<close>.
\<close>

fun string_property :: "jobject \<Rightarrow> string \<Rightarrow> error + string option" where
  "string_property kvs k =
     (case map_of kvs k of
        None \<Rightarrow> Inr None
      | Some JNull \<Rightarrow> Inr None
      | Some (JStr s) \<Rightarrow> Inr (Some s)
      | Some v \<Rightarrow> Inl (TypeError (k @ '' is not a string'')))"

definition state_options_of :: "json option \<Rightarrow> error + OAuthStateOptions option" where
  "state_options_of v =
     (case v of
        None \<Rightarrow> Inr None
      | Some JNull \<Rightarrow> Inr None
      | Some (JObj kvs) \<Rightarrow>
          and_then (string_property kvs ''state'') (\<lambda>s.
          and_then (string_property kvs ''nonce'') (\<lambda>n.
          and_then (string_property kvs ''pkce'') (\<lambda>p.
          and_then (string_property kvs ''codeVerifier'') (\<lambda>cv.
            Inr (Some \<lparr>opt_state = s, opt_nonce = n, opt_pkce = p, opt_codeVerifier = cv\<rparr>)))))
      | Some other \<Rightarrow>
          Inr (Some \<lparr>opt_state = None, opt_nonce = None, opt_pkce = None,
                     opt_codeVerifier = None\<rparr>))"

definition OAuthState_fromJSON :: "random_source \<Rightarrow> json option \<Rightarrow> error + OAuthState" where
  "OAuthState_fromJSON rnd v = and_then (state_options_of v) (\<lambda>options. Inr (OAuthState_new rnd options))"

text \<open>
  The default \<open>ConfigClass\<close>, \<^verbatim>\<open>OAuthConfig.fromJSON\<close>, on what \<^verbatim>\<open>json.config\<close>
  holds: it reads \<^verbatim>\<open>json.server\<close>, \<^verbatim>\<open>json.client.client_id\<close>, \<^verbatim>\<open>json.client\<close>
  and \<^verbatim>\<open>json.redirectUri\<close>, which throws on a missing \<^verbatim>\<open>json\<close> or
  \<^verbatim>\<open>json.client\<close>; \<open>constructors\<close> is the two constructors
  (\<^verbatim>\<open>client.Configuration\<close> and \<^verbatim>\<open>OAuthConfig\<close>).
\<close>

definition OAuthConfig_fromJSON ::
  "(json option \<Rightarrow> json option \<Rightarrow> json \<Rightarrow> json option \<Rightarrow> error + OAuthConfig)
     \<Rightarrow> json option \<Rightarrow> error + OAuthConfig" where
  "OAuthConfig_fromJSON constructors v =
     (case v of
        None \<Rightarrow> Inl (TypeError ''Cannot read properties of undefined (reading server)'')
      | Some j \<Rightarrow>
          and_then (getProp j ''server'') (\<lambda>server.
          and_then (getProp j ''client'') (\<lambda>client.
            case client of
              None \<Rightarrow> Inl (TypeError ''Cannot read properties of undefined (reading client_id)'')
            | Some cl \<Rightarrow>
                and_then (getProp cl ''client_id'') (\<lambda>client_id.
                and_then (getProp j ''redirectUri'') (\<lambda>redirect.
                  constructors server client_id cl redirect)))))"

section \<open>OAuthConfig.getProtectedResourceDiscovery and its cache\<close>












section \<open>Example data\<close>

text \<open>
  The documents of the repository's discovery tests, and a platform that serves one
  response at the well-known URL of \<^verbatim>\<open>https://resource.example.com\<close>.  Its jose
  accepts one token under one key and gives the payload it is built with.
\<close>

definition RESOURCE_ID :: string where
  "RESOURCE_ID = ''https://resource.example.com''"

definition AS_ISSUER :: string where
  "AS_ISSUER = ''https://as.example.com''"

definition example_new_URL :: "json \<Rightarrow> error + URL" where
  "example_new_URL v =
     (if v = JStr ''https://resource.example.com''
      then Inr \<lparr>origin = ''https://resource.example.com'', pathname = ''/'', search_hash = []\<rparr>
      else if v = JStr ''https://as.example.com''
      then Inr \<lparr>origin = ''https://as.example.com'', pathname = ''/'', search_hash = []\<rparr>
      else Inl (TypeError ''Invalid URL''))"

definition example_token :: json where
  "example_token = JStr ''header.payload.signature''"

definition example_platform :: "response \<Rightarrow> jobject \<Rightarrow> string platform" where
  "example_platform res payload =
     \<lparr> new_URL = example_new_URL,
       ky_get = (\<lambda>u. if u = ''https://resource.example.com/.well-known/oauth-protected-resource''
                     then Inr res else Inl (OtherError ''TimeoutError'' ''Request timed out'')),
       decodeJwt = (\<lambda>t. if t = example_token then Inr payload
                        else Inl (OtherError ''JWTInvalid'' ''Invalid JWT'')),
       jwtVerify = (\<lambda>t k. if t = example_token \<and> k = ''key-1'' then Inr payload
                          else Inl (OtherError ''JWSSignatureVerificationFailed''
                                      ''signature verification failed'')),
       createRemoteJWKSet = (\<lambda>u. href u),
       createLocalJWKSet = (\<lambda>j. Inr ''key-1'') \<rparr>"


definition json_response :: "json \<Rightarrow> response" where
  "json_response body =
     \<lparr> res_ok = True,
       res_url = RESOURCE_ID,
       res_content_type = Some ''application/oauth-protected-resource+json'',
       res_text = Inr [],
       res_json = Inr body \<rparr>"







definition other_resource_document :: jobject where
  "other_resource_document =
     [(''resource'', JStr ''https://other.example.com''),
      (''authorization_servers'', JArr [JStr AS_ISSUER])]"


definition example_random :: random_source where
  "example_random = \<lparr> randomState = ''fresh-state'', randomNonce = ''fresh-nonce'',
                       randomPKCECodeVerifier = ''fresh-verifier'' \<rparr>"

definition example_state :: "string option \<Rightarrow> OAuthState" where
  "example_state challenge =
     \<lparr> state = ''state-1'', nonce = ''nonce-1'', pkce = challenge, codeVerifier = ''verifier-1'' \<rparr>"


definition example_config :: "bool \<Rightarrow> (string \<times> string) list \<Rightarrow> OAuthConfig" where
  "example_config pkce_supported additional =
     \<lparr> config_name = ''OAuthConfig'',
       redirectUri = \<lparr>origin = ''https://app.example.com'', pathname = ''/callback'', search_hash = []\<rparr>,
       scopes = [''openid'', ''email''],
       additionalParams = additional,
       supportsPKCE = pkce_supported,
       serverMetadata = JObj [(''issuer'', JStr AS_ISSUER)],
       clientMetadata = JObj [(''client_id'', JStr ''client-1'')] \<rparr>"

text \<open>
  A runtime outside production whose grant always rejects with the error it is given,
  and whose \<^verbatim>\<open>JSON.parse\<close> knows one stored entry.
\<close>

definition example_runtime :: "error \<Rightarrow> (string \<times> json) list \<Rightarrow> runtime" where
  "example_runtime grant_error entries =
     \<lparr> production = False,
       isSafeURL = (\<lambda>u. Inr True),
       URL_constructor = example_new_URL,
       calculatePKCECodeChallenge = (\<lambda>v. ''challenge-of-'' @ v),
       buildAuthorizationUrl =
         (\<lambda>c ps. Inr (''https://as.example.com/authorize?''
                        @ join (map (\<lambda>(k, v). k @ ''='' @ v) ps) ''&'')),
       authorizationCodeGrant = (\<lambda>c u expectedState pkceCodeVerifier expectedNonce. Inl grant_error),
       JSON_stringify = (\<lambda>v. ''serialized''),
       JSON_parse = (\<lambda>t. case map_of entries t of
                             Some v \<Rightarrow> Inr v
                           | None \<Rightarrow> Inl (SyntaxError ''Unexpected token'')) \<rparr>"

text \<open>
  A provider with an async \<^verbatim>\<open>save\<close>, as \<^verbatim>\<open>RedisStorageProvider\<close> has it, whose
  promise rejects, and a synchronous one over a fixed table.
\<close>

definition rejecting_async_storage :: StorageProvider where
  "rejecting_async_storage =
     \<lparr> save = (\<lambda>k v. Inr (Promise (Inl (OtherError ''SocketClosedUnexpectedlyError''
                                           ''Socket closed unexpectedly'')))),
       get = (\<lambda>k. Inr (Promise (Inr None))) \<rparr>"

definition table_storage :: "(string \<times> string) list \<Rightarrow> StorageProvider" where
  "table_storage table =
     \<lparr> save = (\<lambda>k v. Inr (Value ())),
       get = (\<lambda>k. Inr (Value (map_of table k))) \<rparr>"

definition example_flow_state :: OAuthState where
  "example_flow_state =
     \<lparr> state = ''state-1'', nonce = ''nonce-1'', pkce = None, codeVerifier = ''verifier-1'' \<rparr>"

text \<open>
  A stored entry that has a \<^verbatim>\<open>config\<close> and no \<^verbatim>\<open>state\<close>, and what
  \<^verbatim>\<open>JSON.parse\<close> makes of it.
\<close>

definition entry_without_state_text :: string where
  \<open>entry_without_state_text =
     ''{"config":{"server":{"issuer":"https://as.example.com"},"client":{"client_id":"client-1"},"redirectUri":"https://app.example.com/callback"}}''\<close>

definition entry_without_state :: json where
  "entry_without_state =
     JObj [(''config'',
            JObj [(''server'', JObj [(''issuer'', JStr AS_ISSUER)]),
                  (''client'', JObj [(''client_id'', JStr ''client-1'')]),
                  (''redirectUri'', JStr ''https://app.example.com/callback'')])]"

definition example_constructors ::
  "json option \<Rightarrow> json option \<Rightarrow> json \<Rightarrow> json option \<Rightarrow> error + OAuthConfig" where
  "example_constructors server client_id client redirect = Inr (example_config True [])"

definition example_callback :: issuer where
  "example_callback =
     IssuerURL \<lparr>origin = ''https://app.example.com'', pathname = ''/callback'',
                search_hash = ''?code=abc&state=state-1''\<rparr>"

definition example_client :: "StorageProvider option \<Rightarrow> OAuthClient" where
  "example_client provider =
     \<lparr> userConfig = example_config True [], flow_state = example_flow_state, storage = provider \<rparr>"


section \<open>Properties of OAuthState\<close>

lemma fromJSON_toJSON: "fromJSON rnd (toJSON s) = s"
  by (simp add: fromJSON_def toJSON_def OAuthState_new_def optional_chain_def nullish_def)

lemma getCodeChallenge_memoized:
  "pkce s = Some p \<Longrightarrow> p \<noteq> [] \<Longrightarrow> getCodeChallenge calc s = (p, s)"
  by (simp add: getCodeChallenge_def)

lemma getCodeChallenge_fresh:
  "pkce s = None \<Longrightarrow> fst (getCodeChallenge calc s) = calc (codeVerifier s)"
  by (simp add: getCodeChallenge_def)

text \<open>
  Claim C7.  Serializing a flow state and reading it back keeps \<open>state\<close>, \<open>nonce\<close>,
  \<open>codeVerifier\<close> and the stored challenge, and the challenge of the restored object is
  the challenge of the original.  A challenge that was stored before serialization is
  returned as stored, whatever the derivation function computes after the restore; a
  flow state without one derives it from \<open>codeVerifier\<close>.
\<close>

theorem flow_state_round_trip:
  "state (fromJSON rnd (toJSON fs)) = state fs \<and>
   nonce (fromJSON rnd (toJSON fs)) = nonce fs \<and>
   codeVerifier (fromJSON rnd (toJSON fs)) = codeVerifier fs \<and>
   pkce (fromJSON rnd (toJSON fs)) = pkce fs \<and>
   fst (getCodeChallenge calc (fromJSON rnd (toJSON fs))) = fst (getCodeChallenge calc fs) \<and>
   (\<forall>p calc'. pkce fs = Some p \<and> p \<noteq> [] \<longrightarrow>
      fst (getCodeChallenge calc' (fromJSON rnd (toJSON fs))) = p) \<and>
   (pkce fs = None \<longrightarrow>
      fst (getCodeChallenge calc (fromJSON rnd (toJSON fs))) = calc (codeVerifier fs))"
  by (simp add: fromJSON_toJSON getCodeChallenge_memoized getCodeChallenge_fresh)

theorem flow_state_round_trip_witness:
  "fst (getCodeChallenge (\<lambda>v. ''other-'' @ v)
          (fromJSON example_random (toJSON (example_state (Some ''stored-challenge'')))))
     = ''stored-challenge''
   \<and> fst (getCodeChallenge (\<lambda>v. ''derived-'' @ v)
          (fromJSON example_random (toJSON (example_state None))))
     = ''derived-verifier-1''
   \<and> state (fromJSON example_random (toJSON (example_state None))) = ''state-1''"
proof -
  let ?stored = "example_state (Some ''stored-challenge'')"
  let ?fresh = "example_state None"
  let ?other = "\<lambda>v. ''other-'' @ v"
  let ?derive = "\<lambda>v. ''derived-'' @ v"
  have fields: "pkce (example_state c) = c" "codeVerifier (example_state c) = ''verifier-1''"
    "state (example_state c) = ''state-1''" for c
    by (simp_all add: example_state_def)
  have stored: "\<forall>p calc'. pkce ?stored = Some p \<and> p \<noteq> [] \<longrightarrow>
      fst (getCodeChallenge calc' (fromJSON example_random (toJSON ?stored))) = p"
    using flow_state_round_trip [of example_random ?stored ?other]
    by (elim conjE)
  have fresh: "pkce ?fresh = None \<longrightarrow>
      fst (getCodeChallenge ?derive (fromJSON example_random (toJSON ?fresh)))
        = ?derive (codeVerifier ?fresh)"
    using flow_state_round_trip [of example_random ?fresh ?derive]
    by (elim conjE)
  have kept: "state (fromJSON example_random (toJSON ?fresh)) = state ?fresh"
    using flow_state_round_trip [of example_random ?fresh ?derive]
    by (elim conjE)
  have one: "fst (getCodeChallenge ?other (fromJSON example_random (toJSON ?stored)))
     = ''stored-challenge''"
    using stored [rule_format, of "''stored-challenge''" ?other] by (simp add: fields)
  have two: "fst (getCodeChallenge ?derive (fromJSON example_random (toJSON ?fresh)))
     = ''derived-verifier-1''"
    using fresh by (simp add: fields)
  have three: "state (fromJSON example_random (toJSON ?fresh)) = ''state-1''"
    using kept by (simp add: fields)
  from one two three show ?thesis by (intro conjI)
qed

section \<open>Properties of discovery\<close>

lemma and_then_Inr [simp]: "and_then (Inr v) f = f v"
  by (simp add: and_then_def)

lemma and_then_Inl [simp]: "and_then (Inl e) f = Inl e"
  by (simp add: and_then_def)

lemma and_then_eq_Inr:
  "and_then r f = Inr y \<longleftrightarrow> (\<exists>v. r = Inr v \<and> f v = Inr y)"
  by (cases r) simp_all

lemma map_of_object_spread:
  "distinct (map fst s) \<Longrightarrow>
   map_of (object_spread t s) k = (case map_of s k of Some v \<Rightarrow> Some v | None \<Rightarrow> map_of t k)"
proof (induction s arbitrary: t)
  case Nil
  then show ?case by (simp add: object_spread_def)
next
  case (Cons p s)
  obtain a b where p: "p = (a, b)" by (cases p)
  from Cons.prems p have d: "distinct (map fst s)" and na: "a \<notin> fst ` set s" by auto
  have step: "object_spread t ((a, b) # s) = object_spread (AList.update a b t) s"
    by (simp add: object_spread_def)
  have none: "map_of s a = None"
    using na by (simp add: map_of_eq_None_iff)
  show ?case
    unfolding p step
    using Cons.IH[OF d, of "AList.update a b t"] none
    by (auto simp: AList.update_conv' split: option.splits)
qed


lemma payloadToResult_SomeD:
  assumes "payloadToResult payload = Some m"
  shows "\<exists>r a rest.
           map_of payload ''resource'' = Some (JStr r) \<and>
           map_of payload ''authorization_servers'' = Some (JArr (a # rest)) \<and>
           m = [(''resource'', JStr r),
                (''authorization_servers'', JArr (a # rest)),
                (''bearer_methods_supported'', bearer_or_default payload),
                (''resource_documentation'', documentation_or_default payload)]
               @ spread_if_truthy ''resource_endpoints'' (map_of payload ''resource_endpoints'')
               @ spread_if_truthy ''resource_signing_alg_values_supported''
                   (map_of payload ''resource_signing_alg_values_supported'')"
proof -
  from assms obtain r where r: "map_of payload ''resource'' = Some (JStr r)"
    by (cases "map_of payload ''resource''" rule: typeof_string.cases)
       (auto simp: payloadToResult_def Let_def split: if_splits)
  from assms obtain xs where xs: "map_of payload ''authorization_servers'' = Some (JArr xs)"
    by (cases "map_of payload ''authorization_servers''" rule: isArray.cases)
       (auto simp: payloadToResult_def Let_def split: if_splits)
  from assms r xs obtain a rest where ar: "xs = a # rest"
    by (cases xs) (auto simp: payloadToResult_def Let_def split: if_splits)
  from assms show ?thesis
    unfolding payloadToResult_def Let_def
    by (simp add: r xs ar)
qed


lemma payloadToResult_distinct:
  assumes "payloadToResult payload = Some m"
  shows "distinct (map fst m)"
proof -
  from payloadToResult_SomeD[OF assms] obtain r a rest where
    m: "m = [(''resource'', JStr r),
                (''authorization_servers'', JArr (a # rest)),
                (''bearer_methods_supported'', bearer_or_default payload),
                (''resource_documentation'', documentation_or_default payload)]
               @ spread_if_truthy ''resource_endpoints'' (map_of payload ''resource_endpoints'')
               @ spread_if_truthy ''resource_signing_alg_values_supported''
                   (map_of payload ''resource_signing_alg_values_supported'')"
    by blast
  show ?thesis
    unfolding m by (auto simp: spread_if_truthy_def split: option.splits)
qed


lemma bound_result_SomeD:
  "bound_result payload rid = Some m \<Longrightarrow>
     payloadToResult payload = Some m \<and> map_of m ''resource'' = Some (JStr rid)"
  by (auto simp: bound_result_def split: option.splits if_splits)

lemma verifySignedMetadata_SomeD:
  assumes "verifySignedMetadata pf token jo rid = Inr (Some m)"
  shows "\<exists>key payload. jwtVerify pf token key = Inr payload \<and> bound_result payload rid = Some m"
proof (cases jo)
  case (JwksOption jwks)
  with assms show ?thesis
    by (auto simp: verifySignedMetadata_def and_then_eq_Inr)
next
  case (GetKeyOption getKey)
  with assms obtain unverified where
    u: "decodeJwt pf token = Inr unverified"
    and rest: "(case map_of unverified ''iss'' of
              Some (JStr iss) \<Rightarrow>
                and_then (getKey iss) (\<lambda>key.
                and_then (jwtVerify pf token key) (\<lambda>payload.
                  Inr (bound_result payload rid)))
            | _ \<Rightarrow> Inr None) = Inr (Some m)"
    by (auto simp: verifySignedMetadata_def and_then_eq_Inr)
  from rest obtain iss where "map_of unverified ''iss'' = Some (JStr iss)"
    by (auto split: option.splits json.splits)
  with rest show ?thesis
    by (auto simp: and_then_eq_Inr)
qed


lemma getProp_Some_JObj:
  "getProp json k = Inr (Some v) \<Longrightarrow> \<exists>kvs. json = JObj kvs \<and> map_of kvs k = Some v"
  by (cases json) simp_all

text \<open>How a 2xx response is turned into a result, branch by branch.\<close>

lemma discovery_from_response_jwt:
  assumes "res_ok res"
    and "str_includes (case res_content_type res of None \<Rightarrow> [] | Some c \<Rightarrow> c)
           PROTECTED_RESOURCE_DISCOVERY_JWT_MEDIA_TYPE"
  shows "discovery_from_response pf res options rid =
           (case options_jwt options of
              None \<Rightarrow> Inl (Error verification_required_jwt)
            | Some jo \<Rightarrow> and_then (res_text res) (\<lambda>token. verifySignedMetadata pf (JStr token) jo rid))"
  using assms by (simp add: discovery_from_response_def)

lemma discovery_from_response_json_ok:
  assumes "res_ok res"
    and "\<not> str_includes (case res_content_type res of None \<Rightarrow> [] | Some c \<Rightarrow> c)
           PROTECTED_RESOURCE_DISCOVERY_JWT_MEDIA_TYPE"
    and "discovery_from_json pf res options rid = Inr r"
  shows "discovery_from_response pf res options rid = Inr r"
  using assms by (simp add: discovery_from_response_def)






lemma getProtectedResourceDiscovery_fetched:
  assumes "discovery_request pf i rp = Inr (request_url, rid)"
    and "ky_get pf request_url = Inr res"
  shows "getProtectedResourceDiscovery pf i rp options = discovery_from_response pf res options rid"
  using assms by (simp add: getProtectedResourceDiscovery_def)


lemma example_request:
  "discovery_request (example_platform res payload) (IssuerString RESOURCE_ID) None
     = Inr (''https://resource.example.com/.well-known/oauth-protected-resource'', RESOURCE_ID)"
  by (simp add: discovery_request_def toURL_def example_platform_def example_new_URL_def
        RESOURCE_ID_def set_pathname_def well_known_path_def issuer_after_assignment_def
        requestResourceIdFromIssuer_def strip_trailing_slash_def href_def Let_def)

lemma example_fetch:
  "ky_get (example_platform res payload)
     ''https://resource.example.com/.well-known/oauth-protected-resource'' = Inr res"
  by (simp add: example_platform_def)













text \<open>
  The binding check of the signed paths: a result that comes out of
  \<open>verifySignedMetadata\<close>, alone or merged over a plain document, has the requested
  identifier as its \<^verbatim>\<open>resource\<close>.
\<close>

lemma signed_result_is_bound:
  assumes "verifySignedMetadata pf token jo rid = Inr (Some m)"
  shows "map_of m ''resource'' = Some (JStr rid)"
  using verifySignedMetadata_SomeD[OF assms] bound_result_SomeD by blast

lemma merged_result_is_bound:
  assumes "verifySignedMetadata pf token jo rid = Inr (Some m)"
  shows "map_of (object_spread t m) ''resource'' = Some (JStr rid)"
proof -
  from verifySignedMetadata_SomeD[OF assms] bound_result_SomeD obtain payload where
    p: "payloadToResult payload = Some m" by blast
  show ?thesis
    by (simp add: map_of_object_spread[OF payloadToResult_distinct[OF p]]
          signed_result_is_bound[OF assms])
qed

text \<open>
  The plain branch does not look at the requested identifier at all.
\<close>

lemma plain_document_is_returned_for_any_request:
  assumes "res_ok res"
    and "\<not> str_includes (case res_content_type res of None \<Rightarrow> [] | Some c \<Rightarrow> c)
             PROTECTED_RESOURCE_DISCOVERY_JWT_MEDIA_TYPE"
    and "res_json res = Inr (JObj kvs)"
    and "map_of kvs ''signed_metadata'' = None"
    and "plain_discovery (JObj kvs) = Some kvs"
  shows "discovery_from_response pf res options rid = Inr (Some kvs)"
proof -
  have "discovery_from_json pf res options rid = Inr (Some kvs)"
    using assms by (simp add: discovery_from_json_def)
  then show ?thesis
    using assms(1,2) by (rule discovery_from_response_json_ok[rotated 2])
qed

text \<open>
  Claim C1 at a plain JSON document.  The plain branch tests only that
  \<^verbatim>\<open>resource\<close> is a string: a 2xx document whose \<^verbatim>\<open>resource\<close> is another
  identifier than the one requested is returned as it is, not \<^verbatim>\<open>null\<close>.
\<close>

theorem plain_document_of_other_resource_is_returned:
  "discovery_request (example_platform (json_response (JObj other_resource_document)) [])
     (IssuerString RESOURCE_ID) None
     = Inr (''https://resource.example.com/.well-known/oauth-protected-resource'', RESOURCE_ID)
   \<and> getProtectedResourceDiscovery
       (example_platform (json_response (JObj other_resource_document)) [])
       (IssuerString RESOURCE_ID) None None = Inr (Some other_resource_document)
   \<and> map_of other_resource_document ''resource'' = Some (JStr ''https://other.example.com'')
   \<and> ''https://other.example.com'' \<noteq> RESOURCE_ID"
proof -
  have "getProtectedResourceDiscovery
       (example_platform (json_response (JObj other_resource_document)) [])
       (IssuerString RESOURCE_ID) None None = Inr (Some other_resource_document)"
    unfolding getProtectedResourceDiscovery_fetched[OF example_request example_fetch]
    by (simp add: discovery_from_response_def discovery_from_json_def json_response_def
        PROTECTED_RESOURCE_DISCOVERY_JWT_MEDIA_TYPE_def other_resource_document_def
        plain_discovery_def)
  then show ?thesis
    by (simp add: example_request) (simp add: other_resource_document_def RESOURCE_ID_def)
qed

section \<open>Properties of the authorization-code flow\<close>

lemma object_spread_other_key:
  "k \<notin> fst ` set source \<Longrightarrow> map_of (object_spread target source) k = map_of target k"
proof (induction source arbitrary: target)
  case Nil
  then show ?case by (simp add: object_spread_def)
next
  case (Cons p source)
  obtain a b where p: "p = (a, b)" by (cases p)
  have step: "object_spread target ((a, b) # source) = object_spread (AList.update a b target) source"
    by (simp add: object_spread_def)
  from Cons.prems p have "k \<noteq> a" "k \<notin> fst ` set source" by auto
  then show ?case
    unfolding p step using Cons.IH[of "AList.update a b target"]
    by (simp add: AList.update_conv')
qed

lemma getCodeChallenge_keeps:
  "state (snd (getCodeChallenge calc s)) = state s"
  "nonce (snd (getCodeChallenge calc s)) = nonce s"
  "codeVerifier (snd (getCodeChallenge calc s)) = codeVerifier s"
  by (simp_all add: getCodeChallenge_def split: option.splits)

text \<open>
  Claim C8, as the code has it.  Without PKCE support the parameters always carry
  \<^verbatim>\<open>nonce\<close> equal to the flow state's nonce.  With PKCE support they carry no
  \<^verbatim>\<open>nonce\<close> unless the configuration's additional parameters have one.
  \<^verbatim>\<open>code_challenge\<close>, \<^verbatim>\<open>state\<close> and \<^verbatim>\<open>code_challenge_method\<close> (\<^verbatim>\<open>S256\<close>) are
  there with the flow's values unless an additional parameter of the same name
  replaces them: an additional parameter always wins, except over the nonce that is set
  when PKCE is not supported.
\<close>

theorem authorization_params_nonce_and_pkce:
  "(\<not> supportsPKCE c \<longrightarrow>
      map_of (authorization_params c s challenge sep) ''nonce'' = Some (nonce s)) \<and>
   (supportsPKCE c \<and> ''nonce'' \<notin> fst ` set (additionalParams c) \<longrightarrow>
      map_of (authorization_params c s challenge sep) ''nonce'' = None) \<and>
   (''code_challenge'' \<notin> fst ` set (additionalParams c) \<longrightarrow>
      map_of (authorization_params c s challenge sep) ''code_challenge'' = Some challenge) \<and>
   (''state'' \<notin> fst ` set (additionalParams c) \<longrightarrow>
      map_of (authorization_params c s challenge sep) ''state'' = Some (state s)) \<and>
   (''code_challenge_method'' \<notin> fst ` set (additionalParams c) \<longrightarrow>
      map_of (authorization_params c s challenge sep) ''code_challenge_method'' = Some ''S256'') \<and>
   (\<forall>k v. distinct (map fst (additionalParams c)) \<and> map_of (additionalParams c) k = Some v
            \<and> (supportsPKCE c \<or> k \<noteq> ''nonce'') \<longrightarrow>
      map_of (authorization_params c s challenge sep) k = Some v)"
proof (intro conjI impI allI)
  assume "\<not> supportsPKCE c"
  then show "map_of (authorization_params c s challenge sep) ''nonce'' = Some (nonce s)"
    by (simp add: authorization_params_def Let_def AList.update_conv')
next
  assume "supportsPKCE c \<and> ''nonce'' \<notin> fst ` set (additionalParams c)"
  then show "map_of (authorization_params c s challenge sep) ''nonce'' = None"
    by (simp add: authorization_params_def Let_def object_spread_other_key)
next
  assume "''code_challenge'' \<notin> fst ` set (additionalParams c)"
  then show "map_of (authorization_params c s challenge sep) ''code_challenge'' = Some challenge"
    by (simp add: authorization_params_def Let_def object_spread_other_key AList.update_conv')
next
  assume "''state'' \<notin> fst ` set (additionalParams c)"
  then show "map_of (authorization_params c s challenge sep) ''state'' = Some (state s)"
    by (simp add: authorization_params_def Let_def object_spread_other_key AList.update_conv')
next
  assume "''code_challenge_method'' \<notin> fst ` set (additionalParams c)"
  then show "map_of (authorization_params c s challenge sep) ''code_challenge_method'' = Some ''S256''"
    by (simp add: authorization_params_def Let_def object_spread_other_key AList.update_conv'
          CODE_CHALLENGE_METHOD_def)
next
  fix k v
  assume a: "distinct (map fst (additionalParams c)) \<and> map_of (additionalParams c) k = Some v
            \<and> (supportsPKCE c \<or> k \<noteq> ''nonce'')"
  then show "map_of (authorization_params c s challenge sep) k = Some v"
    by (auto simp: authorization_params_def Let_def map_of_object_spread AList.update_conv')
qed

lemma createAuthorizationUrl_params:
  assumes "production rt \<longrightarrow> (\<exists>safe. isSafeURL rt (redirectUri (userConfig c)) = Inr safe)"
    and "fst (saveState rt (c\<lparr>flow_state := snd (getCodeChallenge (calculatePKCECodeChallenge rt) (flow_state c))\<rparr>)) = Inr ()"
  shows "fst (createAuthorizationUrl rt c sep) =
     buildAuthorizationUrl rt (userConfig c)
       (authorization_params (userConfig c)
          (snd (getCodeChallenge (calculatePKCECodeChallenge rt) (flow_state c)))
          (fst (getCodeChallenge (calculatePKCECodeChallenge rt) (flow_state c))) sep)"
proof -
  obtain ch s where g: "getCodeChallenge (calculatePKCECodeChallenge rt) (flow_state c) = (ch, s)"
    by (cases "getCodeChallenge (calculatePKCECodeChallenge rt) (flow_state c)")
  obtain fl where sv: "saveState rt (c\<lparr>flow_state := s\<rparr>) = (Inr (), fl)"
    using assms(2) g by (cases "saveState rt (c\<lparr>flow_state := s\<rparr>)") auto
  from assms(1) obtain safe where
    "(if production rt then isSafeURL rt (redirectUri (userConfig c)) else Inr True) = Inr safe"
    by (cases "production rt") auto
  then show ?thesis
    by (simp add: createAuthorizationUrl_def g sv)
qed

text \<open>
  Claim C8 as it is written fails when the additional parameters carry one of the
  names: they are spread after the fixed entries, so a configuration that supports PKCE
  and has \<^verbatim>\<open>nonce\<close> among them sends a \<^verbatim>\<open>nonce\<close>, and one that has
  \<^verbatim>\<open>code_challenge_method\<close> among them replaces \<^verbatim>\<open>S256\<close>.
\<close>

theorem authorization_params_nonce_and_pkce_counterexample:
  "supportsPKCE (example_config True [(''nonce'', ''fixed''), (''code_challenge_method'', ''plain'')])
   \<and> map_of (authorization_params
               (example_config True [(''nonce'', ''fixed''), (''code_challenge_method'', ''plain'')])
               example_flow_state ''challenge-1'' '' '') ''nonce'' = Some ''fixed''
   \<and> map_of (authorization_params
               (example_config True [(''nonce'', ''fixed''), (''code_challenge_method'', ''plain'')])
               example_flow_state ''challenge-1'' '' '') ''code_challenge_method'' = Some ''plain''"
  by (simp add: example_config_def authorization_params_def Let_def object_spread_def)

theorem authorization_params_nonce_and_pkce_witness:
  "map_of (authorization_params (example_config False [(''prompt'', ''consent'')])
             example_flow_state ''challenge-1'' '' '') ''nonce'' = Some ''nonce-1''
   \<and> map_of (authorization_params (example_config True [(''prompt'', ''consent'')])
             example_flow_state ''challenge-1'' '' '') ''nonce'' = None
   \<and> map_of (authorization_params (example_config True [(''prompt'', ''consent'')])
             example_flow_state ''challenge-1'' '' '') ''code_challenge_method'' = Some ''S256''
   \<and> map_of (authorization_params (example_config True [(''prompt'', ''consent'')])
             example_flow_state ''challenge-1'' '' '') ''prompt'' = Some ''consent''
   \<and> map_of (authorization_params (example_config True [(''prompt'', ''consent'')])
             example_flow_state ''challenge-1'' '' '') ''code_challenge'' = Some ''challenge-1''
   \<and> map_of (authorization_params (example_config True [(''prompt'', ''consent'')])
             example_flow_state ''challenge-1'' '' '') ''state'' = Some ''state-1''"
proof -
  let ?t = "example_config True [(''prompt'', ''consent'')]"
  let ?f = "example_config False [(''prompt'', ''consent'')]"
  have f: "\<not> supportsPKCE ?f" "supportsPKCE ?t"
    "additionalParams ?t = [(''prompt'', ''consent'')]"
    by (simp_all add: example_config_def)
  have n: "nonce example_flow_state = ''nonce-1''"
    by (simp add: example_flow_state_def)
  note T = authorization_params_nonce_and_pkce[of ?t example_flow_state "''challenge-1''" "'' ''"]
  note F = authorization_params_nonce_and_pkce[of ?f example_flow_state "''challenge-1''" "'' ''"]
  have 1: "map_of (authorization_params ?f example_flow_state ''challenge-1'' '' '') ''nonce''
             = Some ''nonce-1''"
    using F f n by simp
  have 2: "map_of (authorization_params ?t example_flow_state ''challenge-1'' '' '') ''nonce'' = None"
    using T f by simp
  have 3: "map_of (authorization_params ?t example_flow_state ''challenge-1'' '' '')
             ''code_challenge_method'' = Some ''S256''"
    using T f by simp
  have 4: "map_of (authorization_params ?t example_flow_state ''challenge-1'' '' '') ''prompt''
             = Some ''consent''"
    using T f by simp
  have 5: "map_of (authorization_params ?t example_flow_state ''challenge-1'' '' '')
             ''code_challenge'' = Some ''challenge-1''"
    using T f by simp
  have 6: "map_of (authorization_params ?t example_flow_state ''challenge-1'' '' '') ''state''
             = Some ''state-1''"
    using T f by (simp add: example_flow_state_def)
  from 1 2 3 4 5 6 show ?thesis by (intro conjI)
qed

subsection \<open>getTokensFromCodeGrant\<close>

text \<open>
  A client error of the grant comes out as an \<^verbatim>\<open>OAuthClientError\<close> that carries it
  as cause, with the parsed body of an HTTP error as reason; when reading that body
  rejects, the rejection comes out instead.
\<close>

lemma client_error_is_wrapped:
  assumes "toURL (URL_constructor rt) callback = Inr u"
    and "authorizationCodeGrant rt (userConfig c) u
           (state (flow_state c)) (codeVerifier (flow_state c)) (nonce (flow_state c))
         = Inl (ClientError m cause)"
  shows "(\<forall>hm body. cause \<noteq> Some (HTTPError hm body)) \<longrightarrow>
           getTokensFromCodeGrant rt c callback
             = Inl (OAuthClientError ''Failed to get tokens from code grant'' (ClientError m cause) None)"
    and "cause = Some (HTTPError hm (Some (Inr reason))) \<longrightarrow>
           getTokensFromCodeGrant rt c callback
             = Inl (OAuthClientError ''Failed to get tokens from code grant'' (ClientError m cause)
                     (Some reason))"
    and "cause = Some (HTTPError hm None) \<longrightarrow>
           getTokensFromCodeGrant rt c callback
             = Inl (OAuthClientError ''Failed to get tokens from code grant'' (ClientError m cause) None)"
    and "cause = Some (HTTPError hm (Some (Inl rejected))) \<longrightarrow>
           getTokensFromCodeGrant rt c callback = Inl rejected"
  using assms
  by (auto simp: getTokensFromCodeGrant_def split: option.splits error.splits sum.splits)

lemma other_failure_is_swallowed:
  assumes "toURL (URL_constructor rt) callback = Inr u"
    and "authorizationCodeGrant rt (userConfig c) u
           (state (flow_state c)) (codeVerifier (flow_state c)) (nonce (flow_state c)) = Inl e"
    and "\<forall>m cause. e \<noteq> ClientError m cause"
  shows "getTokensFromCodeGrant rt c callback = Inr None"
  using assms by (cases e) (simp_all add: getTokensFromCodeGrant_def)

text \<open>
  Claim C4 at a failure that is not a client error.  The \<^verbatim>\<open>catch\<close> block has no
  rethrow outside the \<^verbatim>\<open>ClientError\<close> branch: a grant that rejects with a timeout
  makes \<open>getTokensFromCodeGrant\<close> resolve to \<^verbatim>\<open>undefined\<close>; the error does not
  reach the caller.
\<close>

theorem grant_timeout_resolves_to_undefined:
  "getTokensFromCodeGrant
     (example_runtime (OtherError ''TimeoutError'' ''Request timed out'') [])
     (example_client None) example_callback = Inr None"
  by (simp add: getTokensFromCodeGrant_def example_runtime_def example_callback_def toURL_def)

subsection \<open>createAuthorizationUrl and saveState\<close>

text \<open>
  Claim C5 at a provider whose \<^verbatim>\<open>save\<close> returns a promise.  \<^verbatim>\<open>saveState\<close> does not
  await it: the authorization URL is returned while the promise is left behind, and its
  rejection never reaches the caller.
\<close>

theorem rejected_save_is_not_surfaced:
  "fst (createAuthorizationUrl (example_runtime (Error ''unused'') [])
          (example_client (Some rejecting_async_storage)) '' '')
     = Inr ''https://as.example.com/authorize?redirect_uri=https://app.example.com/callback&scope=openid email&code_challenge=challenge-of-verifier-1&state=state-1&code_challenge_method=S256''
   \<and> snd (snd (createAuthorizationUrl (example_runtime (Error ''unused'') [])
          (example_client (Some rejecting_async_storage)) '' ''))
     = [Inl (OtherError ''SocketClosedUnexpectedlyError'' ''Socket closed unexpectedly'')]"
  by (simp add: createAuthorizationUrl_def example_runtime_def example_client_def
        example_flow_state_def getCodeChallenge_def saveState_def rejecting_async_storage_def
        authorization_params_def Let_def example_config_def object_spread_def href_def
        CODE_CHALLENGE_METHOD_def)

text \<open>
  A provider that saves synchronously is done, or has thrown into the caller, before the
  URL is built; without a provider nothing is saved.
\<close>

lemma saveState_sync:
  assumes "storage c = Some provider"
    and "save provider (STATE_KEY @ '':'' @ state (flow_state c))
           (JSON_stringify rt
              (JObj [(''state'', OAuthStateJSON_value (toJSON (flow_state c))),
                     (''config'', OAuthConfig_toJSON (userConfig c))])) = r"
  shows "(\<forall>e. r = Inl e \<longrightarrow> saveState rt c = (Inl e, []))"
    and "(r = Inr (Value ()) \<longrightarrow> saveState rt c = (Inr (), []))"
    and "(\<forall>settled. r = Inr (Promise settled) \<longrightarrow> saveState rt c = (Inr (), [settled]))"
  using assms by (auto simp: saveState_def)

lemma saveState_without_storage: "storage c = None \<Longrightarrow> saveState rt c = (Inr (), [])"
  by (simp add: saveState_def)

subsection \<open>fromStorage\<close>

text \<open>
  The flow state that \<^verbatim>\<open>saveState\<close> serializes is the one \<^verbatim>\<open>OAuthState.fromJSON\<close>
  rebuilds from the parsed entry.
\<close>

lemma stored_state_round_trip:
  "OAuthState_fromJSON rnd (Some (OAuthStateJSON_value (toJSON fs))) = Inr fs"
  by (cases "pkce fs")
     (simp_all add: OAuthState_fromJSON_def state_options_of_def OAuthStateJSON_value_def
        toJSON_def OAuthState_new_def optional_chain_def nullish_def)

text \<open>
  A missing or empty entry is "not found", an entry that does not parse is "Invalid state
  entry", an object with neither \<^verbatim>\<open>state\<close> nor \<^verbatim>\<open>config\<close> is "invalid".
\<close>

lemma fromStorage_rejections:
  assumes key: "await (get provider (STATE_KEY @ '':'' @ k)) = Inr store"
  shows "store = None \<or> store = Some [] \<longrightarrow>
           fromStorage rt provider ConfigClass StateClass k
             = Inl (OAuthStateError (''State '' @ k @ '' not found''))"
    and "(\<exists>t m. store = Some t \<and> t \<noteq> [] \<and> JSON_parse rt t = Inl (SyntaxError m)) \<longrightarrow>
           (\<exists>cause. fromStorage rt provider ConfigClass StateClass k
             = Inl (ErrorWithCause ''Invalid state entry'' cause))"
    and "(\<exists>t kvs. store = Some t \<and> t \<noteq> [] \<and> JSON_parse rt t = Inr (JObj kvs)
            \<and> ''state'' \<notin> fst ` set kvs \<and> ''config'' \<notin> fst ` set kvs) \<longrightarrow>
           fromStorage rt provider ConfigClass StateClass k
             = Inl (OAuthStateError (''State '' @ k @ '' is invalid''))"
  using key
  by (auto simp: fromStorage_def fromStorage_try_def)

text \<open>
  Claim C6 at an entry with a \<^verbatim>\<open>config\<close> and no \<^verbatim>\<open>state\<close>.  The test is
  \<^verbatim>\<open>!("state" in json) && !("config" in json)\<close>, so the entry passes; the state
  factory gets \<^verbatim>\<open>undefined\<close> and builds a flow state from fresh random values, and
  \<open>fromStorage\<close> returns a client.
\<close>

theorem entry_without_state_is_resumed:
  "fromStorage (example_runtime (Error ''unused'') [(entry_without_state_text, entry_without_state)])
     (table_storage [(''core_oauth_state:abc'', entry_without_state_text)])
     (OAuthConfig_fromJSON example_constructors) (OAuthState_fromJSON example_random) ''abc''
   = Inr \<lparr> userConfig = example_config True [],
           flow_state = \<lparr> state = ''fresh-state'', nonce = ''fresh-nonce'', pkce = None,
                          codeVerifier = ''fresh-verifier'' \<rparr>,
           storage = Some (table_storage [(''core_oauth_state:abc'', entry_without_state_text)]) \<rparr>"
  by (simp add: fromStorage_def fromStorage_try_def example_runtime_def table_storage_def
        await_def STATE_KEY_def entry_without_state_text_def entry_without_state_def
        OAuthConfig_fromJSON_def example_constructors_def OAuthState_fromJSON_def
        state_options_of_def OAuthState_new_def optional_chain_def nullish_def
        example_random_def)

section \<open>Properties of the discovery cache\<close>









end
